theory Spec2Isabelle
  imports Complex_Main "HOL-Library.AList"
begin

section \<open>Subscription aggregation (Server.make_request, lines 311-323)\<close>

text \<open>
  The field specification of one object in an \<^verbatim>\<open>objects/subscribe\<close> request is
  either Python's \<^verbatim>\<open>None\<close> (every field of the object) or a list of field names.
  The model covers well-typed requests: a field specification that is neither
  \<^verbatim>\<open>None\<close> nor a list of strings is outside it.
\<close>

datatype fields = AllFields | Fields "string list"

text \<open>
  A Python dict keeps its keys unique and in insertion order: an association list,
  read with \<^const>\<open>map_of\<close> and written with \<^const>\<open>AList.update\<close> (which
  replaces the value of a key in place and appends a new key at the end).
\<close>

type_synonym objects = "(string \<times> fields) list"

text \<open>
  \<^verbatim>\<open>list(set(pi) | set(items))\<close>: the elements of both lists, each once. CPython
  fixes no order for the result; the model lists them in order of first occurrence, and
  the theorems below read the result through \<^const>\<open>set\<close> only.
\<close>

definition uitems :: "string list \<Rightarrow> string list \<Rightarrow> string list" where
  "uitems prev items = remdups (prev @ items)"

text \<open>
  The value stored for an object that is already in \<^verbatim>\<open>all_subscriptions\<close>
  (the source's \<^verbatim>\<open>pi\<close> is \<open>prev\<close> here, \<open>pi\<close> being a constant of HOL):
  \<^verbatim>\<open>
  if items is None or pi is None:
      self.all_subscriptions[obj] = None
  else:
      uitems = list(set(pi) | set(items))
      self.all_subscriptions[obj] = uitems
  \<close>
\<close>

fun merge_items :: "fields \<Rightarrow> fields \<Rightarrow> fields" where
  "merge_items prev AllFields = AllFields"
| "merge_items AllFields items = AllFields"
| "merge_items (Fields prev) (Fields items) = Fields (uitems prev items)"

text \<open>One iteration of the loop over \<^verbatim>\<open>params.get('objects', {}).items()\<close>.\<close>

definition subscribe_object :: "objects \<Rightarrow> string \<Rightarrow> fields \<Rightarrow> objects" where
  "subscribe_object subs obj items =
     (case map_of subs obj of
        Some prev \<Rightarrow> AList.update obj (merge_items prev items) subs
      | None \<Rightarrow> AList.update obj items subs)"

fun merge_subscriptions :: "objects \<Rightarrow> objects \<Rightarrow> objects" where
  "merge_subscriptions subs [] = subs"
| "merge_subscriptions subs ((obj, items) # rest) =
     merge_subscriptions (subscribe_object subs obj items) rest"

subsection \<open>The table read as the specification's SubscriptionTable\<close>

text \<open>
  The specification's table maps an object name to "all fields" or to a set of field
  names (unique, order irrelevant): the reading of a stored list through \<^const>\<open>set\<close>.
\<close>

datatype fieldset = All | Only "string set"

fun fieldset_of :: "fields \<Rightarrow> fieldset" where
  "fieldset_of AllFields = All"
| "fieldset_of (Fields xs) = Only (set xs)"

definition table :: "objects \<Rightarrow> string \<Rightarrow> fieldset option" where
  "table subs obj = map_option fieldset_of (map_of subs obj)"

text \<open>
  The merge in the specification's words: union of field sets, with "all fields"
  absorbing; an object named by one side only keeps that side's entry.
\<close>

fun spec_union :: "fieldset \<Rightarrow> fieldset \<Rightarrow> fieldset" where
  "spec_union All b = All"
| "spec_union a All = All"
| "spec_union (Only A) (Only B) = Only (A \<union> B)"

definition spec_merge ::
  "(string \<Rightarrow> fieldset option) \<Rightarrow> (string \<Rightarrow> fieldset option) \<Rightarrow> string \<Rightarrow> fieldset option" where
  "spec_merge t r obj =
     (case t obj of
        None \<Rightarrow> r obj
      | Some a \<Rightarrow> (case r obj of None \<Rightarrow> Some a | Some b \<Rightarrow> Some (spec_union a b)))"

section \<open>JSON documents\<close>

text \<open>
  What \<^verbatim>\<open>json.loads\<close> returns, and what request parameters are made of. A JSON
  object is an association list with unique keys. A float is kept as the number it
  denotes, which is all the code looks at (whether it is zero, and which integer it
  equals).
\<close>

datatype json =
    JNull
  | JBool bool
  | JInt int
  | JFloat real
  | JStr string
  | JList "json list"
  | JDict "(string \<times> json) list"

text \<open>Python's truth value of a decoded document: \<^verbatim>\<open>not result\<close> is \<open>\<not> truthy result\<close>.\<close>

fun truthy :: "json \<Rightarrow> bool" where
  "truthy JNull = False"
| "truthy (JBool b) = b"
| "truthy (JInt n) = (n \<noteq> 0)"
| "truthy (JFloat x) = (x \<noteq> 0)"
| "truthy (JStr s) = (s \<noteq> [])"
| "truthy (JList xs) = (xs \<noteq> [])"
| "truthy (JDict d) = (d \<noteq> [])"

text \<open>\<^verbatim>\<open>d.get(key, default)\<close> on a decoded JSON object.\<close>

definition py_get :: "(string \<times> json) list \<Rightarrow> string \<Rightarrow> json \<Rightarrow> json" where
  "py_get d key dflt = (case map_of d key of None \<Rightarrow> dflt | Some v \<Rightarrow> v)"

text \<open>
  A decoded value used as a dictionary key. Lists and objects are unhashable (the lookup
  raises \<^verbatim>\<open>TypeError\<close>). A dictionary with integer keys finds the key equal to the
  value: \<^verbatim>\<open>5.0 == 5\<close> and \<^verbatim>\<open>True == 1\<close> in Python. A dictionary with string
  keys finds a string only.
\<close>

fun hashable :: "json \<Rightarrow> bool" where
  "hashable (JList xs) = False"
| "hashable (JDict d) = False"
| "hashable v = True"

fun int_key :: "json \<Rightarrow> int option" where
  "int_key (JInt n) = Some n"
| "int_key (JBool b) = Some (if b then 1 else 0)"
| "int_key (JFloat x) = (if x = of_int \<lfloor>x\<rfloor> then Some \<lfloor>x\<rfloor> else None)"
| "int_key v = None"

fun str_key :: "json \<Rightarrow> string option" where
  "str_key (JStr s) = Some s"
| "str_key v = None"

text \<open>\<^verbatim>\<open>sub in s\<close> on two strings: \<open>sub\<close> occurs in \<open>s\<close>.\<close>

fun py_in_str :: "string \<Rightarrow> string \<Rightarrow> bool" where
  "py_in_str sub [] = (sub = [])"
| "py_in_str sub (c # cs) = (take (length sub) (c # cs) = sub \<or> py_in_str sub cs)"

section \<open>Requests (class BaseRequest)\<close>

text \<open>
  Modelled from the spec: \<^verbatim>\<open>utils.ServerError\<close> is imported by
  \<^verbatim>\<open>moonraker.py\<close> and is not among the sources. It is the "typed error" of the
  specification: an exception built from a message and a status code, as in
  \<^verbatim>\<open>ServerError(err, 400)\<close> and \<^verbatim>\<open>ServerError("Klippy Disconnected", 503)\<close>.
  The message is whatever the caller passes; \<^verbatim>\<open>process_command\<close> passes a decoded
  JSON value.
\<close>

datatype server_error = ServerError json int

datatype exn = TypeError | AttributeError

text \<open>What \<^verbatim>\<open>notify\<close> stores in \<^verbatim>\<open>self.response\<close>: a payload or a \<^verbatim>\<open>ServerError\<close>.\<close>

datatype result = Payload json | Failed server_error

text \<open>
  The parameters of a request: a dict. The two keys \<^verbatim>\<open>make_request\<close> reads and
  writes are fields of their own (absent when \<open>None\<close>); every other key is in
  \<open>others\<close>. An \<^verbatim>\<open>'objects'\<close> entry maps object names to field specifications.
\<close>

record params =
  objects :: "objects option"
  response_template :: "json option"
  others :: "(string \<times> json) list"

text \<open>
  \<^verbatim>\<open>
  def __init__(self, rpc_method, params):
      self.id = id(self)
      self.rpc_method = rpc_method
      self.params = params
      self._event = Event()
      self.response = None
  \<close>
  \<^verbatim>\<open>id(self)\<close> is the identity of the object, in CPython its address. The language
  promises only that two objects alive at the same time have different identities. The
  model takes it as the argument \<open>self\<close>, chosen by the runtime.
\<close>

record base_request =
  req_id :: int
  rpc_method :: string
  params :: params
  event_is_set :: bool
  response :: "result option"

definition BaseRequest :: "int \<Rightarrow> string \<Rightarrow> params \<Rightarrow> base_request" where
  "BaseRequest self method ps =
     \<lparr>req_id = self, rpc_method = method, params = ps, event_is_set = False, response = None\<rparr>"

text \<open>
  \<^verbatim>\<open>
  def notify(self, response):
      self.response = response
      self._event.set()
  \<close>
\<close>

definition notify :: "result \<Rightarrow> base_request \<Rightarrow> base_request" where
  "notify resp request = request\<lparr>response := Some resp, event_is_set := True\<rparr>"

text \<open>
  \<^verbatim>\<open>wait\<close> suspends on the event and wakes up either because the event is set or
  because 60 seconds have passed; in the second case it logs and waits again. The model
  runs the loop over the states in which the request is found at the successive wake-ups.
  \<open>None\<close>: the loop is still waiting after all of them. Otherwise the outcome for the
  caller of \<^verbatim>\<open>make_request\<close>: \<open>Inl\<close> the \<^verbatim>\<open>ServerError\<close> raised, \<open>Inr\<close> the
  value returned (\<open>JNull\<close> for a response slot that is still \<^verbatim>\<open>None\<close>).
\<close>

fun wait :: "base_request list \<Rightarrow> (server_error + json) option" where
  "wait [] = None"
| "wait (request # later) =
     (if event_is_set request then
        (case response request of
           Some (Failed err) \<Rightarrow> Some (Inl err)
         | Some (Payload v) \<Rightarrow> Some (Inr v)
         | None \<Rightarrow> Some (Inr JNull))
      else wait later)"

section \<open>The server (class Server) and the connection (class KlippyConnection)\<close>

text \<open>\<^verbatim>\<open>KlippyConnection.iostream\<close>: no stream yet, or a stream that is open or closed.\<close>

datatype stream = Open | Closed

text \<open>
  The callbacks in \<^verbatim>\<open>remote_methods\<close>: the two the server registers itself, and
  methods registered by plugins (such as \<^verbatim>\<open>set_device_power\<close>), which the core only
  calls.
\<close>

datatype callback = ProcessGcodeResponse | ProcessStatusUpdate | PluginMethod string

text \<open>
  The attributes of the server that the functions below read or write. A dict is an
  association list, as above. \<open>pending_requests\<close> maps an id to the request object
  registered under it.
\<close>

record server =
  init_list :: "string list"
  klippy_state :: json
  all_subscriptions :: objects
  pending_requests :: "(int \<times> base_request) list"
  remote_methods :: "(string \<times> callback) list"
  iostream :: "stream option"

text \<open>
  What a function does besides changing the server: calls on a request object, on the
  event loop, on the stream, on the logger. \<open>Notified r\<close> is a call of
  \<^verbatim>\<open>request.notify\<close>, with \<open>r\<close> the request as the call leaves it.
\<close>

datatype effect =
    Log string
  | SendEvent string "json list"
  | Notified base_request
  | CallPlugin string "(string \<times> json) list"
  | SpawnSend base_request
  | StreamWrite int string params
  | InitStart
  | InitStop
  | CallLaterConnect
  | Raise exn

fun notified :: "effect list \<Rightarrow> base_request list" where
  "notified [] = []"
| "notified (Notified r # es) = r # notified es"
| "notified (e # es) = notified es"

text \<open>
  \<^verbatim>\<open>
  def register_remote_method(self, method_name, cb):
      if method_name in self.remote_methods:
          logging.info(f"Remote method ({method_name}) already registered")
          return
      self.remote_methods[method_name] = cb
  \<close>
\<close>

definition register_remote_method :: "string \<Rightarrow> callback \<Rightarrow> server \<Rightarrow> server \<times> effect list" where
  "register_remote_method method_name cb s =
     (if method_name \<in> fst ` set (remote_methods s)
      then (s, [Log ''Remote method already registered''])
      else (s\<lparr>remote_methods := AList.update method_name cb (remote_methods s)\<rparr>, []))"

text \<open>
  \<^verbatim>\<open>Server.__init__\<close>: nothing subscribed, nothing pending, no stream; the two
  built-in remote methods are registered, and then the plugins are loaded, which may
  register remote methods of their own (\<open>plugin_methods\<close>, in the order of their
  registration).
\<close>

definition Server_init :: "(string \<times> callback) list \<Rightarrow> server" where
  "Server_init plugin_methods =
     foldl (\<lambda>s (method_name, cb). fst (register_remote_method method_name cb s))
       \<lparr>init_list = [], klippy_state = JStr ''disconnected'', all_subscriptions = [],
        pending_requests = [], remote_methods = [], iostream = None\<rparr>
       ([(''process_gcode_response'', ProcessGcodeResponse),
         (''process_status_update'', ProcessStatusUpdate)] @ plugin_methods)"

subsection \<open>Notifications from the backend\<close>

text \<open>
  \<^verbatim>\<open>cb(**params)\<close> binds the entries of the object to the parameters of the callback
  by name: every parameter must be given and no other name may occur, or the call raises
  \<^verbatim>\<open>TypeError\<close> (\<open>None\<close>).
\<close>

definition call_kwargs :: "string list \<Rightarrow> (string \<times> json) list \<Rightarrow> json list option" where
  "call_kwargs names kwargs =
     (if distinct (map fst kwargs) \<and> set (map fst kwargs) = set names
      then Some (map (\<lambda>n. py_get kwargs n JNull) names)
      else None)"

definition process_gcode_response :: "json \<Rightarrow> server \<Rightarrow> server \<times> effect list" where
  "process_gcode_response resp s = (s, [SendEvent ''server:gcode_response'' [resp]])"

text \<open>
  \<^verbatim>\<open>
  def _process_status_update(self, eventtime, status):
      if 'webhooks' in status:
          state = status['webhooks'].get('state', None)
          if state is not None:
              if state == "shutdown":
                  logging.info("Klippy has shutdown")
                  self.send_event("server:klippy_shutdown")
              self.klippy_state = state
      self.send_event("server:status_update", status)
  \<close>
  On a status that is not an object, \<^verbatim>\<open>in\<close> tests membership (list), occurrence
  (string) or raises, and the subscript that follows raises.
\<close>

fun process_status_update :: "json \<Rightarrow> json \<Rightarrow> server \<Rightarrow> server \<times> effect list" where
  "process_status_update eventtime (JDict status) s =
     (case map_of status ''webhooks'' of
        None \<Rightarrow> (s, [SendEvent ''server:status_update'' [JDict status]])
      | Some (JDict webhooks) \<Rightarrow>
          (let state = py_get webhooks ''state'' JNull in
           if state \<noteq> JNull then
             (s\<lparr>klippy_state := state\<rparr>,
              (if state = JStr ''shutdown''
               then [Log ''Klippy has shutdown'', SendEvent ''server:klippy_shutdown'' []]
               else [])
              @ [SendEvent ''server:status_update'' [JDict status]])
           else (s, [SendEvent ''server:status_update'' [JDict status]]))
      | Some other \<Rightarrow> (s, [Raise AttributeError]))"
| "process_status_update eventtime (JList status) s =
     (if JStr ''webhooks'' \<in> set status then (s, [Raise TypeError])
      else (s, [SendEvent ''server:status_update'' [JList status]]))"
| "process_status_update eventtime (JStr status) s =
     (if py_in_str ''webhooks'' status then (s, [Raise TypeError])
      else (s, [SendEvent ''server:status_update'' [JStr status]]))"
| "process_status_update eventtime status s = (s, [Raise TypeError])"

fun call_remote :: "callback \<Rightarrow> json \<Rightarrow> server \<Rightarrow> server \<times> effect list" where
  "call_remote ProcessGcodeResponse (JDict kwargs) s =
     (case call_kwargs [''response''] kwargs of
        Some [resp] \<Rightarrow> process_gcode_response resp s
      | _ \<Rightarrow> (s, [Raise TypeError]))"
| "call_remote ProcessStatusUpdate (JDict kwargs) s =
     (case call_kwargs [''eventtime'', ''status''] kwargs of
        Some [eventtime, status] \<Rightarrow> process_status_update eventtime status s
      | _ \<Rightarrow> (s, [Raise TypeError]))"
| "call_remote (PluginMethod name) (JDict kwargs) s = (s, [CallPlugin name kwargs])"
| "call_remote cb v s = (s, [Raise TypeError])"

subsection \<open>Messages from the backend\<close>

text \<open>
  \<^verbatim>\<open>
  def process_command(self, cmd):
      method = cmd.get('method', None)
      if method is not None:
          cb = self.remote_methods.get(method, None)
          if cb is not None:
              params = cmd.get('params', {})
              cb(**params)
          else:
              logging.info(f"Unknown method received: {method}")
          return
      req_id = cmd.get('id', None)
      request = self.pending_requests.pop(req_id, None)
      if request is None:
          logging.info(...)
          return
      if 'result' in cmd:
          result = cmd['result']
          if not result:
              result = "ok"
      else:
          err = cmd.get('error', "Malformed Klippy Response")
          result = ServerError(err, 400)
      request.notify(result)
  \<close>
  \<open>cmd\<close> is the decoded JSON object. A JSON \<^verbatim>\<open>null\<close> is Python's \<^verbatim>\<open>None\<close>, so
  a \<^verbatim>\<open>'method'\<close> that is \<^verbatim>\<open>null\<close> reads as no method.
\<close>

definition remote_methods_get :: "server \<Rightarrow> json \<Rightarrow> callback option" where
  "remote_methods_get s method =
     (case str_key method of None \<Rightarrow> None | Some m \<Rightarrow> map_of (remote_methods s) m)"

definition response_result :: "(string \<times> json) list \<Rightarrow> result" where
  "response_result cmd =
     (case map_of cmd ''result'' of
        Some res \<Rightarrow> (if \<not> truthy res then Payload (JStr ''ok'') else Payload res)
      | None \<Rightarrow>
          Failed (ServerError (py_get cmd ''error'' (JStr ''Malformed Klippy Response'')) 400))"

definition process_command :: "(string \<times> json) list \<Rightarrow> server \<Rightarrow> server \<times> effect list" where
  "process_command cmd s =
     (let method = py_get cmd ''method'' JNull in
      if method \<noteq> JNull then
        (if \<not> hashable method then (s, [Raise TypeError])
         else
           (case remote_methods_get s method of
              Some cb \<Rightarrow> call_remote cb (py_get cmd ''params'' (JDict [])) s
            | None \<Rightarrow> (s, [Log ''Unknown method received''])))
      else
        (let req_id = py_get cmd ''id'' JNull in
         if \<not> hashable req_id then (s, [Raise TypeError])
         else
           (case int_key req_id of
              None \<Rightarrow> (s, [Log ''No request matching request ID''])
            | Some k \<Rightarrow>
                (case map_of (pending_requests s) k of
                   None \<Rightarrow> (s, [Log ''No request matching request ID''])
                 | Some request \<Rightarrow>
                     (s\<lparr>pending_requests := AList.delete k (pending_requests s)\<rparr>,
                      [Notified (notify (response_result cmd) request)])))))"

subsection \<open>Losing the connection and connecting again\<close>

text \<open>
  \<^verbatim>\<open>
  def on_connection_closed(self):
      self.init_list = []
      self.klippy_state = "disconnected"
      self.init_cb.stop()
      for request in self.pending_requests.values():
          request.notify(ServerError("Klippy Disconnected", 503))
      self.pending_requests = {}
      logging.info("Klippy Connection Removed")
      self.send_event("server:klippy_disconnect")
      self.ioloop.call_later(1., self._connect_klippy)
  \<close>
\<close>

definition on_connection_closed :: "server \<Rightarrow> server \<times> effect list" where
  "on_connection_closed s =
     (s\<lparr>init_list := [], klippy_state := JStr ''disconnected'', pending_requests := []\<rparr>,
      [InitStop]
      @ map (\<lambda>request. Notified (notify (Failed (ServerError (JStr ''Klippy Disconnected'') 503)) request))
            (map snd (pending_requests s))
      @ [Log ''Klippy Connection Removed'', SendEvent ''server:klippy_disconnect'' [],
         CallLaterConnect])"

text \<open>
  \<^verbatim>\<open>_connect_klippy\<close> with the outcome of \<^verbatim>\<open>KlippyConnection.connect\<close>: a
  failed attempt is scheduled again, a successful one installs the new stream and starts
  the periodic initialisation.
\<close>

definition connect_klippy :: "bool \<Rightarrow> server \<Rightarrow> server \<times> effect list" where
  "connect_klippy ret s =
     (if \<not> ret then (s, [CallLaterConnect])
      else (s\<lparr>iostream := Some Open\<rparr>, [Log ''Klippy Connection Established'', InitStart]))"

subsection \<open>Making and sending a request\<close>

text \<open>
  \<^verbatim>\<open>make_request\<close> up to its \<^verbatim>\<open>await base_request.wait()\<close>: the subscription
  rewrite, the new request (at the identity \<open>self\<close> the runtime gives it), its
  registration, and the spawned \<^verbatim>\<open>send_request\<close>.
  \<^verbatim>\<open>
  if rpc_method == "objects/subscribe":
      for obj, items in params.get('objects', {}).items():
          ...
      params['objects'] = dict(self.all_subscriptions)
      params['response_template'] = {'method': "process_status_update"}
  base_request = BaseRequest(rpc_method, params)
  self.pending_requests[base_request.id] = base_request
  self.ioloop.spawn_callback(self.klippy_connection.send_request, base_request)
  \<close>
\<close>

definition make_request ::
  "int \<Rightarrow> string \<Rightarrow> params \<Rightarrow> server \<Rightarrow> server \<times> base_request \<times> effect list" where
  "make_request self method ps s =
     (let subs = (if method = ''objects/subscribe''
                  then merge_subscriptions (all_subscriptions s)
                         (case objects ps of None \<Rightarrow> [] | Some os \<Rightarrow> os)
                  else all_subscriptions s);
          ps1 = (if method = ''objects/subscribe''
                 then ps\<lparr>objects := Some subs,
                         response_template :=
                           Some (JDict [(''method'', JStr ''process_status_update'')])\<rparr>
                 else ps);
          base_request = BaseRequest self method ps1
      in (s\<lparr>all_subscriptions := subs,
            pending_requests :=
              AList.update (req_id base_request) base_request (pending_requests s)\<rparr>,
          base_request, [SpawnSend base_request]))"

text \<open>
  \<^verbatim>\<open>
  async def send_request(self, request):
      if self.iostream is None:
          request.notify(ServerError("Klippy Host not connected", 503))
          return
      data = json.dumps(request.to_dict()).encode() + b"\x03"
      try:
          await self.iostream.write(data)
      except iostream.StreamClosedError:
          request.notify(ServerError("Klippy Host not connected", 503))
  \<close>
  \<open>write_ok\<close> is the outcome of a write on an open stream (the peer may close it while
  the write is under way); a write on a closed stream raises
  \<^verbatim>\<open>StreamClosedError\<close>. The request object is shared with the registry: when it is
  still registered, the entry under its id is the same object and sees the call of
  \<^verbatim>\<open>notify\<close>. The function does not take the request out of the registry.
\<close>

definition send_failed :: "base_request \<Rightarrow> server \<Rightarrow> server \<times> effect list" where
  "send_failed request s =
     (let err = Failed (ServerError (JStr ''Klippy Host not connected'') 503) in
      (s\<lparr>pending_requests :=
           map (\<lambda>(k, r). if k = req_id request then (k, notify err r) else (k, r))
               (pending_requests s)\<rparr>,
       [Notified (notify err request)]))"

definition send_request :: "bool \<Rightarrow> base_request \<Rightarrow> server \<Rightarrow> server \<times> effect list" where
  "send_request write_ok request s =
     (case iostream s of
        None \<Rightarrow> send_failed request s
      | Some st \<Rightarrow>
          (if st = Open \<and> write_ok
           then (s, [StreamWrite (req_id request) (rpc_method request) (params request)])
           else send_failed request s))"

subsection \<open>The event loop\<close>

text \<open>
  Everything runs on one event loop, and a function runs without interruption between
  two of its \<^verbatim>\<open>await\<close>s. The loop therefore runs, in any order, the pieces modelled
  above: a call of \<^verbatim>\<open>make_request\<close> (up to its wait), a spawned
  \<^verbatim>\<open>send_request\<close>, a message handed to \<^verbatim>\<open>process_command\<close> by the read loop, the
  close callback of the stream, and a connection attempt.
\<close>

datatype event =
    MakeRequest int string params
  | SendRequest bool base_request
  | Received "(string \<times> json) list"
  | ConnectionClosed
  | Connect bool

fun step :: "event \<Rightarrow> server \<Rightarrow> server \<times> effect list" where
  "step (MakeRequest self method ps) s =
     (case make_request self method ps s of (s1, base_request, out) \<Rightarrow> (s1, out))"
| "step (SendRequest write_ok request) s = send_request write_ok request s"
| "step (Received cmd) s = process_command cmd s"
| "step ConnectionClosed s =
     on_connection_closed (s\<lparr>iostream := map_option (\<lambda>st. Closed) (iostream s)\<rparr>)"
| "step (Connect ret) s = connect_klippy ret s"

text \<open>The state after a sequence of events, and what each of them did.\<close>

fun run :: "event list \<Rightarrow> server \<Rightarrow> server \<times> effect list list" where
  "run [] s = (s, [])"
| "run (e # es) s =
     (case step e s of (s1, out) \<Rightarrow>
        (case run es s1 of (s2, outs) \<Rightarrow> (s2, out # outs)))"

subsection \<open>Reading a run of the event loop\<close>

text \<open>
  The registry is sound when its keys are unique (it is a dict) and every request is
  registered under its own id.
\<close>

definition registry_ok :: "server \<Rightarrow> bool" where
  "registry_ok s =
     (distinct (map fst (pending_requests s)) \<and>
      (\<forall>(k, r) \<in> set (pending_requests s). req_id r = k))"

text \<open>
  An event answers the request with id \<open>k\<close> when it is a message that
  \<^verbatim>\<open>process_command\<close> takes as a response (no method) and whose id is \<open>k\<close>; it
  sends the request when it is the \<^verbatim>\<open>send_request\<close> of that request.
\<close>

fun answers :: "event \<Rightarrow> int \<Rightarrow> bool" where
  "answers (Received cmd) k =
     (py_get cmd ''method'' JNull = JNull \<and> int_key (py_get cmd ''id'' JNull) = Some k)"
| "answers e k = False"

fun sends :: "event \<Rightarrow> int \<Rightarrow> bool" where
  "sends (SendRequest write_ok request) k = (req_id request = k)"
| "sends e k = False"

text \<open>The requests created by a step: those it hands to \<^verbatim>\<open>send_request\<close>.\<close>

fun spawned :: "effect list \<Rightarrow> base_request list" where
  "spawned [] = []"
| "spawned (SpawnSend r # es) = r # spawned es"
| "spawned (e # es) = spawned es"

section \<open>Properties of the subscription merge\<close>

lemma fieldset_of_merge_items:
  "fieldset_of (merge_items prev items) = spec_union (fieldset_of prev) (fieldset_of items)"
  by (cases prev; cases items) (simp_all add: uitems_def)

lemma spec_union_commute: "spec_union a b = spec_union b a"
  by (cases a; cases b) auto

lemma spec_union_assoc: "spec_union (spec_union a b) c = spec_union a (spec_union b c)"
  by (cases a; cases b; cases c) auto

lemma spec_union_idem: "spec_union a a = a"
  by (cases a) auto

lemma spec_union_left_commute: "spec_union a (spec_union b c) = spec_union b (spec_union a c)"
  by (cases a; cases b; cases c) auto

lemma spec_union_empty: "spec_union a (Only {}) = a"
  by (cases a) simp_all

lemma spec_union_All: "spec_union a All = All"
  by (cases a) simp_all

lemma table_subscribe_object:
  "table (subscribe_object subs obj items) =
     (table subs)(obj \<mapsto> (case table subs obj of
                              None \<Rightarrow> fieldset_of items
                            | Some a \<Rightarrow> spec_union a (fieldset_of items)))"
  by (rule ext)
     (simp add: table_def subscribe_object_def update_conv' fieldset_of_merge_items
           split: option.splits)

lemma keys_subscribe_object:
  "fst ` set (subscribe_object subs obj items) = insert obj (fst ` set subs)"
  by (simp add: subscribe_object_def dom_update split: option.splits)

lemma keys_merge_subscriptions:
  "fst ` set (merge_subscriptions subs req) = fst ` set subs \<union> fst ` set req"
  by (induction subs req rule: merge_subscriptions.induct)
     (auto simp: keys_subscribe_object)

lemma distinct_subscribe_object:
  "distinct (map fst subs) \<Longrightarrow> distinct (map fst (subscribe_object subs obj items))"
  by (simp add: subscribe_object_def distinct_update split: option.splits)

lemma distinct_merge_subscriptions:
  "distinct (map fst subs) \<Longrightarrow> distinct (map fst (merge_subscriptions subs req))"
  by (induction subs req rule: merge_subscriptions.induct)
     (simp_all add: distinct_subscribe_object)

lemma table_merge_subscriptions:
  "distinct (map fst req) \<Longrightarrow>
   table (merge_subscriptions subs req) = spec_merge (table subs) (table req)"
proof (induction subs req rule: merge_subscriptions.induct)
  case (1 subs)
  show ?case
    by (rule ext) (simp add: spec_merge_def table_def split: option.splits)
next
  case (2 subs obj items rest)
  then have rest: "distinct (map fst rest)" and fresh: "obj \<notin> fst ` set rest"
    by auto
  from fresh have none: "map_of rest obj = None"
    by (simp add: map_of_eq_None_iff)
  have "table (merge_subscriptions subs ((obj, items) # rest)) =
        spec_merge (table (subscribe_object subs obj items)) (table rest)"
    using "2.IH" [OF rest] by simp
  also have "\<dots> = spec_merge (table subs) (table ((obj, items) # rest))"
    by (rule ext)
       (simp add: spec_merge_def table_subscribe_object table_def none
             split: option.splits)
  finally show ?case .
qed

section \<open>Properties of requests and of the effects of a step\<close>

lemma req_id_notify: "req_id (notify resp r) = req_id r"
  by (simp add: notify_def)

lemma response_notify: "response (notify resp r) = Some resp"
  by (simp add: notify_def)

lemma event_is_set_notify: "event_is_set (notify resp r)"
  by (simp add: notify_def)

lemma notified_append: "notified (xs @ ys) = notified xs @ notified ys"
  by (induction xs rule: notified.induct) simp_all

lemma notified_map: "notified (map (\<lambda>x. Notified (f x)) xs) = map f xs"
  by (induction xs) simp_all

lemma process_status_update_pending:
  "pending_requests (fst (process_status_update t status s)) = pending_requests s"
  by (cases "(t, status, s)" rule: process_status_update.cases)
     (auto simp: Let_def split: option.splits json.splits)

lemma process_status_update_notified:
  "notified (snd (process_status_update t status s)) = []"
  by (cases "(t, status, s)" rule: process_status_update.cases)
     (auto simp: Let_def split: option.splits json.splits)


lemma call_remote_pending:
  "pending_requests (fst (call_remote cb v s)) = pending_requests s"
  by (cases "(cb, v, s)" rule: call_remote.cases)
     (auto simp: process_gcode_response_def process_status_update_pending
           split: option.splits list.splits)

lemma call_remote_notified:
  "notified (snd (call_remote cb v s)) = []"
  by (cases "(cb, v, s)" rule: call_remote.cases)
     (auto simp: process_gcode_response_def process_status_update_notified
           split: option.splits list.splits)



lemma process_command_response:
  assumes "py_get cmd ''method'' JNull = JNull"
    and "int_key (py_get cmd ''id'' JNull) = Some k"
    and "map_of (pending_requests s) k = Some request"
  shows "process_command cmd s =
           (s\<lparr>pending_requests := AList.delete k (pending_requests s)\<rparr>,
            [Notified (notify (response_result cmd) request)])"
proof -
  from assms(2) have "hashable (py_get cmd ''id'' JNull)"
    by (cases "py_get cmd ''id'' JNull") simp_all
  with assms show ?thesis
    by (simp add: process_command_def Let_def)
qed

lemma process_command_notified:
  "r \<in> set (notified (snd (process_command cmd s))) \<Longrightarrow>
   py_get cmd ''method'' JNull = JNull \<and>
   (\<exists>k q. int_key (py_get cmd ''id'' JNull) = Some k \<and>
          map_of (pending_requests s) k = Some q \<and>
          r = notify (response_result cmd) q \<and>
          pending_requests (fst (process_command cmd s)) = AList.delete k (pending_requests s))"
  by (auto simp: process_command_def Let_def call_remote_notified
           split: if_splits option.splits)

lemma process_command_pending:
  "pending_requests (fst (process_command cmd s)) = pending_requests s \<or>
   (\<exists>k. pending_requests (fst (process_command cmd s)) = AList.delete k (pending_requests s))"
  by (auto simp: process_command_def Let_def call_remote_pending split: option.splits)

lemma on_connection_closed_notified:
  "notified (snd (on_connection_closed s)) =
     map (notify (Failed (ServerError (JStr ''Klippy Disconnected'') 503)))
         (map snd (pending_requests s))"
  by (simp add: on_connection_closed_def notified_append comp_def notified_map)

lemma step_MakeRequest_notified: "notified (snd (step (MakeRequest self rpc ps) s)) = []"
  by (simp add: make_request_def Let_def)

lemma send_request_notified:
  "r \<in> set (notified (snd (send_request write_ok request s))) \<Longrightarrow> req_id r = req_id request"
  by (auto simp: send_request_def send_failed_def Let_def req_id_notify
           split: option.splits if_splits)

lemma connect_klippy_notified: "notified (snd (connect_klippy ret s)) = []"
  by (simp add: connect_klippy_def)

lemma filter_notified_other:
  assumes "\<forall>(j, r) \<in> set xs. req_id r = j" and "k \<notin> fst ` set xs"
  shows "filter (\<lambda>r. req_id r = k) (map (notify e) (map snd xs)) = []"
  using assms by (force simp: filter_empty_conv req_id_notify)

lemma filter_notified_registered:
  assumes "distinct (map fst xs)" and "\<forall>(j, r) \<in> set xs. req_id r = j"
    and "(k, q) \<in> set xs"
  shows "filter (\<lambda>r. req_id r = k) (map (notify e) (map snd xs)) = [notify e q]"
  using assms
proof (induction xs)
  case Nil
  then show ?case by simp
next
  case (Cons x xs)
  show ?case
  proof (cases "x = (k, q)")
    case True
    with Cons.prems have fresh: "k \<notin> fst ` set xs"
      and ids: "\<forall>(j, r) \<in> set xs. req_id r = j"
      by auto
    have "filter (\<lambda>r. req_id r = k) (map (notify e) (map snd xs)) = []"
      using ids fresh by (rule filter_notified_other)
    with True Cons.prems show ?thesis
      by (simp add: req_id_notify)
  next
    case False
    with Cons.prems have in_rest: "(k, q) \<in> set xs"
      by simp
    with Cons.prems have "fst x \<noteq> k"
      by (auto simp: image_iff)
    moreover from Cons.prems have "req_id (snd x) = fst x"
      by auto
    moreover from Cons.prems in_rest
    have "filter (\<lambda>r. req_id r = k) (map (notify e) (map snd xs)) = [notify e q]"
      by (intro Cons.IH) auto
    ultimately show ?thesis
      by (simp add: req_id_notify)
  qed
qed

section \<open>The registry of pending requests in the states the server reaches\<close>

lemma registry_ok_lookup:
  "registry_ok s \<Longrightarrow> map_of (pending_requests s) k = Some r \<Longrightarrow> req_id r = k"
  by (auto simp: registry_ok_def dest: map_of_SomeD)

lemma register_remote_method_frame:
  "init_list (fst (register_remote_method n cb s)) = init_list s"
  "all_subscriptions (fst (register_remote_method n cb s)) = all_subscriptions s"
  "pending_requests (fst (register_remote_method n cb s)) = pending_requests s"
  by (simp_all add: register_remote_method_def)

lemma register_all_frame:
  "init_list (foldl (\<lambda>s (n, cb). fst (register_remote_method n cb s)) s ms) = init_list s"
  "all_subscriptions (foldl (\<lambda>s (n, cb). fst (register_remote_method n cb s)) s ms)
     = all_subscriptions s"
  "pending_requests (foldl (\<lambda>s (n, cb). fst (register_remote_method n cb s)) s ms)
     = pending_requests s"
  by (induction ms arbitrary: s) (simp_all add: register_remote_method_frame case_prod_beta)

lemma Server_init_empty:
  "init_list (Server_init plugin_methods) = []"
  "all_subscriptions (Server_init plugin_methods) = []"
  "pending_requests (Server_init plugin_methods) = []"
  unfolding Server_init_def by (simp_all only: register_all_frame) simp_all

lemma registry_ok_init: "registry_ok (Server_init plugin_methods)"
  by (simp add: registry_ok_def Server_init_empty)

lemma set_update_subset: "set (AList.update k v al) \<subseteq> insert (k, v) (set al)"
  by (induction al) auto

lemma set_delete_subset: "set (AList.delete k al) \<subseteq> set al"
  by (auto simp: AList.delete_eq)

lemma update_fresh: "k \<notin> fst ` set al \<Longrightarrow> AList.update k v al = al @ [(k, v)]"
  by (induction al) auto

lemma registry_ok_update:
  assumes "registry_ok s"
    and "pending_requests s1 = AList.update (req_id r) r (pending_requests s)"
  shows "registry_ok s1"
  using assms set_update_subset [of "req_id r" r "pending_requests s"]
  by (auto simp: registry_ok_def distinct_update)

lemma registry_ok_delete:
  assumes "registry_ok s"
    and "pending_requests s1 = AList.delete k (pending_requests s)"
  shows "registry_ok s1"
  using assms set_delete_subset [of k "pending_requests s"]
  by (auto simp: registry_ok_def distinct_delete)

lemma registry_ok_cong:
  "pending_requests s1 = pending_requests s \<Longrightarrow> registry_ok s \<Longrightarrow> registry_ok s1"
  by (simp add: registry_ok_def)

lemma make_request_pending:
  "pending_requests (fst (make_request self method ps s)) =
     AList.update (req_id (fst (snd (make_request self method ps s))))
       (fst (snd (make_request self method ps s))) (pending_requests s)"
  by (simp add: make_request_def Let_def)

lemma make_request_req_id: "req_id (fst (snd (make_request self method ps s))) = self"
  by (simp add: make_request_def Let_def BaseRequest_def)

lemma registry_ok_make_request:
  "registry_ok s \<Longrightarrow> registry_ok (fst (make_request self method ps s))"
  by (erule registry_ok_update) (rule make_request_pending)

lemma send_failed_keys:
  "map fst (pending_requests (fst (send_failed request s))) = map fst (pending_requests s)"
  by (induction "pending_requests s") (auto simp: send_failed_def Let_def case_prod_beta)

lemma send_failed_entries:
  "(k, r) \<in> set (pending_requests (fst (send_failed request s))) \<Longrightarrow>
   \<exists>q. (k, q) \<in> set (pending_requests s) \<and> req_id r = req_id q"
  by (auto simp: send_failed_def Let_def req_id_notify split: if_splits)

lemma registry_ok_send_failed:
  "registry_ok s \<Longrightarrow> registry_ok (fst (send_failed request s))"
  unfolding registry_ok_def
  by (auto simp: send_failed_keys dest!: send_failed_entries)

lemma registry_ok_send_request:
  "registry_ok s \<Longrightarrow> registry_ok (fst (send_request write_ok request s))"
  by (simp add: send_request_def registry_ok_send_failed split: option.splits)

lemma registry_ok_process_command:
  "registry_ok s \<Longrightarrow> registry_ok (fst (process_command cmd s))"
  using process_command_pending [of cmd s]
  by (auto intro: registry_ok_cong registry_ok_delete)

lemma registry_ok_on_connection_closed:
  "registry_ok (fst (on_connection_closed s))"
  by (simp add: on_connection_closed_def registry_ok_def)

lemma registry_ok_connect_klippy:
  "registry_ok s \<Longrightarrow> registry_ok (fst (connect_klippy ret s))"
  by (simp add: connect_klippy_def registry_ok_def)

lemma fst_step_MakeRequest:
  "fst (step (MakeRequest self method ps) s) = fst (make_request self method ps s)"
  by (simp split: prod.splits)

lemma registry_ok_step:
  assumes "registry_ok s"
  shows "registry_ok (fst (step e s))"
proof (cases e)
  case (MakeRequest self rpc ps)
  with assms show ?thesis
    by (simp only: fst_step_MakeRequest registry_ok_make_request)
next
  case (SendRequest write_ok request)
  with assms show ?thesis
    by (simp add: registry_ok_send_request)
next
  case (Received cmd)
  with assms show ?thesis
    by (simp add: registry_ok_process_command)
next
  case ConnectionClosed
  then show ?thesis
    by (simp add: registry_ok_on_connection_closed)
next
  case (Connect ret)
  with assms show ?thesis
    by (simp add: registry_ok_connect_klippy)
qed

lemma fst_run_Cons: "fst (run (e # es) s) = fst (run es (fst (step e s)))"
  by (simp split: prod.splits)

lemma fst_run_snoc: "fst (run (es @ [e]) s) = fst (step e (fst (run es s)))"
  by (induction es arbitrary: s)
     (simp_all only: append_Nil append_Cons fst_run_Cons run.simps(1) fst_conv)

lemma registry_ok_run: "registry_ok s \<Longrightarrow> registry_ok (fst (run es s))"
proof (induction es arbitrary: s)
  case Nil
  then show ?case by simp
next
  case (Cons e es)
  from Cons.prems have "registry_ok (fst (step e s))"
    by (rule registry_ok_step)
  then have "registry_ok (fst (run es (fst (step e s))))"
    by (rule Cons.IH)
  then show ?case
    by (simp only: fst_run_Cons)
qed

lemma registry_ok_reachable: "registry_ok (fst (run es (Server_init plugin_methods)))"
  by (rule registry_ok_run [OF registry_ok_init])

section \<open>The claims\<close>

subsection \<open>C1: the subscription merge\<close>

text \<open>
  C1. The subscription merge of \<^verbatim>\<open>make_request\<close> is, object by object, the union of
  field sets with "all fields" absorbing. For a request \<open>r1\<close> (a dict, so its object
  names are distinct) merged into any table \<open>subs\<close>, and the table read as the
  specification's SubscriptionTable (field lists as sets): the result is
  \<^const>\<open>spec_merge\<close> of the two; two field sets give their union; an entry that is
  "all fields" on either side stays "all fields"; merging the same request a second time
  changes nothing; two requests merge to the same table in either order; and merging
  \<open>r1\<close> and then \<open>r2\<close> is merging the merge of \<open>r1\<close> and \<open>r2\<close>.
\<close>

theorem subscription_merge_is_union:
  assumes r1: "distinct (map fst r1)" and r2: "distinct (map fst r2)"
  shows "table (merge_subscriptions subs r1) = spec_merge (table subs) (table r1)
       \<and> (table subs obj = Some (Only A) \<and> table r1 obj = Some (Only B)
            \<longrightarrow> table (merge_subscriptions subs r1) obj = Some (Only (A \<union> B)))
       \<and> (table subs obj = Some All \<longrightarrow> table (merge_subscriptions subs r1) obj = Some All)
       \<and> (table r1 obj = Some All \<longrightarrow> table (merge_subscriptions subs r1) obj = Some All)
       \<and> table (merge_subscriptions (merge_subscriptions subs r1) r1)
           = table (merge_subscriptions subs r1)
       \<and> table (merge_subscriptions (merge_subscriptions subs r1) r2)
           = table (merge_subscriptions (merge_subscriptions subs r2) r1)
       \<and> table (merge_subscriptions (merge_subscriptions subs r1) r2)
           = table (merge_subscriptions subs (merge_subscriptions r1 r2))"
proof -
  have m1: "\<And>t. table (merge_subscriptions t r1) = spec_merge (table t) (table r1)"
    using r1 by (rule table_merge_subscriptions)
  have m2: "\<And>t. table (merge_subscriptions t r2) = spec_merge (table t) (table r2)"
    using r2 by (rule table_merge_subscriptions)
  have m12: "table (merge_subscriptions subs (merge_subscriptions r1 r2))
             = spec_merge (table subs) (spec_merge (table r1) (table r2))"
    using distinct_merge_subscriptions [OF r1, of r2]
    by (simp add: table_merge_subscriptions m2)
  have idem: "spec_merge (spec_merge (table subs) (table r1)) (table r1)
              = spec_merge (table subs) (table r1)"
    by (rule ext) (simp add: spec_merge_def spec_union_assoc spec_union_idem split: option.splits)
  have comm: "spec_merge (spec_merge (table subs) (table r1)) (table r2)
              = spec_merge (spec_merge (table subs) (table r2)) (table r1)"
    by (rule ext)
       (simp add: spec_merge_def spec_union_assoc spec_union_commute spec_union_left_commute
             split: option.splits)
  have assoc: "spec_merge (spec_merge (table subs) (table r1)) (table r2)
              = spec_merge (table subs) (spec_merge (table r1) (table r2))"
    by (rule ext) (simp add: spec_merge_def spec_union_assoc split: option.splits)
  have un: "table subs obj = Some (Only A) \<and> table r1 obj = Some (Only B)
            \<longrightarrow> spec_merge (table subs) (table r1) obj = Some (Only (A \<union> B))"
    by (simp add: spec_merge_def)
  have ab1: "table subs obj = Some All \<longrightarrow> spec_merge (table subs) (table r1) obj = Some All"
    by (simp add: spec_merge_def split: option.splits)
  have ab2: "table r1 obj = Some All \<longrightarrow> spec_merge (table subs) (table r1) obj = Some All"
    by (cases "table subs obj"; cases "the (table subs obj)") (simp_all add: spec_merge_def)
  show ?thesis
    using un ab1 ab2 idem comm assoc by (simp add: m1 m2 m12)
qed

theorem subscription_merge_is_union_witness:
  "distinct (map fst [(''A'', Fields [''y'']), (''B'', Fields [''z''])])
   \<and> distinct (map fst [(''B'', AllFields)])
   \<and> table [(''A'', Fields [''x'']), (''B'', AllFields)] ''A'' = Some (Only {''x''})
   \<and> table [(''A'', Fields [''y'']), (''B'', Fields [''z''])] ''A'' = Some (Only {''y''})
   \<and> table (merge_subscriptions [(''A'', Fields [''x'']), (''B'', AllFields)]
               [(''A'', Fields [''y'']), (''B'', Fields [''z''])]) ''A''
       = Some (Only ({''x''} \<union> {''y''}))
   \<and> table [(''A'', Fields [''x'']), (''B'', AllFields)] ''B'' = Some All
   \<and> table (merge_subscriptions [(''A'', Fields [''x'']), (''B'', AllFields)]
               [(''A'', Fields [''y'']), (''B'', Fields [''z''])]) ''B'' = Some All
   \<and> table [(''B'', AllFields)] ''B'' = Some All
   \<and> table (merge_subscriptions [(''B'', Fields [''w''])] [(''B'', AllFields)]) ''B'' = Some All"
proof -
  let ?s = "[(''A'', Fields [''x'']), (''B'', AllFields)]"
  let ?r1 = "[(''A'', Fields [''y'']), (''B'', Fields [''z''])]"
  let ?r2 = "[(''B'', AllFields)]"
  have d1: "distinct (map fst ?r1)" and d2: "distinct (map fst ?r2)"
    by simp_all
  have sA: "table ?s ''A'' = Some (Only {''x''})"
    and rA: "table ?r1 ''A'' = Some (Only {''y''})"
    and sB: "table ?s ''B'' = Some All"
    and rB: "table ?r2 ''B'' = Some All"
    by (simp_all add: table_def)
  have un: "table (merge_subscriptions ?s ?r1) ''A'' = Some (Only ({''x''} \<union> {''y''}))"
    using subscription_merge_is_union [OF d1 d2, of ?s "''A''" "{''x''}" "{''y''}"] sA rA
    by blast
  have ab1: "table (merge_subscriptions ?s ?r1) ''B'' = Some All"
    using subscription_merge_is_union [OF d1 d2, of ?s "''B''"] sB
    by blast
  have ab2: "table (merge_subscriptions [(''B'', Fields [''w''])] ?r2) ''B'' = Some All"
    using subscription_merge_is_union [OF d2 d1, of "[(''B'', Fields [''w''])]" "''B''"] rB
    by blast
  show ?thesis
    using d1 d2 sA rA sB rB un ab1 ab2 by blast
qed

subsection \<open>C2: disconnection and the subscription table\<close>



subsection \<open>C3: what resolves a request\<close>

text \<open>
  C3, as stated, fails. A request made before any connection exists is resolved by
  \<^verbatim>\<open>send_request\<close> itself, with \<^verbatim>\<open>ServerError("Klippy Host not connected", 503)\<close>:
  the event that resolves it is neither a response carrying its id nor a disconnection.
  \<^verbatim>\<open>send_request\<close> leaves the request in the registry, so that, once a connection
  has been made and lost, \<^verbatim>\<open>on_connection_closed\<close> notifies the same request a
  second time. The run below lists, event by event, the ids of the requests notified.
\<close>

theorem request_resolved_twice_by_send_and_close:
  "map (\<lambda>out. map req_id (notified out))
       (snd (run [MakeRequest 1 ''info'' \<lparr>objects = None, response_template = None, others = []\<rparr>,
                  SendRequest True
                    (BaseRequest 1 ''info'' \<lparr>objects = None, response_template = None, others = []\<rparr>),
                  Connect True,
                  ConnectionClosed] (Server_init [])))
     = [[], [1], [], [1]]
   \<and> notified (snd (step
         (SendRequest True
            (BaseRequest 1 ''info'' \<lparr>objects = None, response_template = None, others = []\<rparr>))
         (fst (run [MakeRequest 1 ''info''
                      \<lparr>objects = None, response_template = None, others = []\<rparr>] (Server_init [])))))
     = [notify (Failed (ServerError (JStr ''Klippy Host not connected'') 503))
          (BaseRequest 1 ''info'' \<lparr>objects = None, response_template = None, others = []\<rparr>)]
   \<and> \<not> answers
         (SendRequest True
            (BaseRequest 1 ''info'' \<lparr>objects = None, response_template = None, others = []\<rparr>)) 1
   \<and> SendRequest True
         (BaseRequest 1 ''info'' \<lparr>objects = None, response_template = None, others = []\<rparr>)
       \<noteq> ConnectionClosed"
  by (simp add: make_request_def send_request_def send_failed_def connect_klippy_def
        on_connection_closed_def Server_init_def register_remote_method_def BaseRequest_def
        notify_def Let_def)

text \<open>
  C3, amended. In every state the server reaches, whatever calls of
  \<^verbatim>\<open>make_request\<close> and other events came before, a request is resolved by one of
  three events only: a response (a message without method) carrying the id of that
  request, a disconnection, or the \<^verbatim>\<open>send_request\<close> of that very request; never by
  the response to another request. A response resolves the one request registered under
  its id and nothing else, and takes it out of the registry; a disconnection leaves the
  registry empty.
\<close>

theorem resolution_has_its_cause:
  assumes "r \<in> set (notified (snd (step e (fst (run es (Server_init plugin_methods))))))"
  shows "(answers e (req_id r) \<or> e = ConnectionClosed \<or> sends e (req_id r))
       \<and> (\<forall>cmd. e = Received cmd \<longrightarrow>
             notified (snd (step e (fst (run es (Server_init plugin_methods))))) = [r]
             \<and> req_id r \<notin> fst ` set (pending_requests
                   (fst (step e (fst (run es (Server_init plugin_methods)))))))
       \<and> (e = ConnectionClosed \<longrightarrow>
             pending_requests (fst (step e (fst (run es (Server_init plugin_methods))))) = [])"
proof (cases e)
  case (MakeRequest self rpc ps)
  with assms show ?thesis
    by (simp only: step_MakeRequest_notified) simp
next
  case (SendRequest write_ok request)
  with assms have "req_id r = req_id request"
    by (auto dest: send_request_notified)
  with SendRequest show ?thesis
    by simp
next
  case (Received cmd)
  let ?s = "fst (run es (Server_init plugin_methods))"
  from assms Received have "r \<in> set (notified (snd (process_command cmd ?s)))"
    by simp
  then obtain k q where nomethod: "py_get cmd ''method'' JNull = JNull"
    and key: "int_key (py_get cmd ''id'' JNull) = Some k"
    and reg: "map_of (pending_requests ?s) k = Some q"
    and r: "r = notify (response_result cmd) q"
    by (auto dest: process_command_notified)
  have "req_id q = k"
    using registry_ok_reachable reg by (rule registry_ok_lookup)
  with r have id: "req_id r = k"
    by (simp add: req_id_notify)
  have run: "process_command cmd ?s =
               (?s\<lparr>pending_requests := AList.delete k (pending_requests ?s)\<rparr>, [Notified r])"
    using process_command_response [OF nomethod key reg] r by simp
  have "k \<notin> fst ` set (AList.delete k (pending_requests ?s))"
    by (rule delete_notin_dom)
  with Received nomethod key id run show ?thesis
    by simp
next
  case ConnectionClosed
  then show ?thesis
    by (simp add: on_connection_closed_def)
next
  case (Connect ret)
  with assms show ?thesis
    by (simp add: connect_klippy_notified)
qed

theorem resolution_has_its_cause_witness:
  "notify (Payload (JStr ''x''))
     (BaseRequest 7 ''info'' \<lparr>objects = None, response_template = None, others = []\<rparr>)
   \<in> set (notified (snd (step (Received [(''id'', JInt 7), (''result'', JStr ''x'')])
        (fst (run [MakeRequest 7 ''info''
                     \<lparr>objects = None, response_template = None, others = []\<rparr>] (Server_init []))))))
   \<and> answers (Received [(''id'', JInt 7), (''result'', JStr ''x'')])
        (req_id (notify (Payload (JStr ''x''))
           (BaseRequest 7 ''info'' \<lparr>objects = None, response_template = None, others = []\<rparr>)))
   \<and> notified (snd (step (Received [(''id'', JInt 7), (''result'', JStr ''x'')])
        (fst (run [MakeRequest 7 ''info''
                     \<lparr>objects = None, response_template = None, others = []\<rparr>] (Server_init [])))))
       = [notify (Payload (JStr ''x''))
            (BaseRequest 7 ''info'' \<lparr>objects = None, response_template = None, others = []\<rparr>)]
   \<and> req_id (notify (Payload (JStr ''x''))
         (BaseRequest 7 ''info'' \<lparr>objects = None, response_template = None, others = []\<rparr>))
       \<notin> fst ` set (pending_requests (fst (step (Received [(''id'', JInt 7), (''result'', JStr ''x'')])
        (fst (run [MakeRequest 7 ''info''
                     \<lparr>objects = None, response_template = None, others = []\<rparr>] (Server_init []))))))"
proof -
  let ?e = "Received [(''id'', JInt 7), (''result'', JStr ''x'')]"
  let ?es = "[MakeRequest 7 ''info'' \<lparr>objects = None, response_template = None, others = []\<rparr>]"
  let ?r = "notify (Payload (JStr ''x''))
              (BaseRequest 7 ''info'' \<lparr>objects = None, response_template = None, others = []\<rparr>)"
  have h: "?r \<in> set (notified (snd (step ?e (fst (run ?es (Server_init []))))))"
    by (simp add: make_request_def process_command_def response_result_def py_get_def
          Server_init_def register_remote_method_def BaseRequest_def Let_def)
  have a: "answers ?e (req_id ?r)"
    by (simp add: py_get_def req_id_notify BaseRequest_def)
  from resolution_has_its_cause [OF h] have
    "notified (snd (step ?e (fst (run ?es (Server_init []))))) = [?r]
     \<and> req_id ?r \<notin> fst ` set (pending_requests (fst (step ?e (fst (run ?es (Server_init []))))))"
    by blast
  with h a show ?thesis
    by (simp only: simp_thms)
qed

subsection \<open>C4: requests pending at disconnection\<close>

text \<open>
  C4. When the connection closes, \<^verbatim>\<open>on_connection_closed\<close> calls
  \<^verbatim>\<open>notify(ServerError("Klippy Disconnected", 503))\<close> once on each request in the
  registry, in the order of the registry, and nothing else is notified; each of them then
  holds this error, which its waiting caller gets raised; and the registry is empty
  afterwards. When the registry is sound (each request under its own id, as it is in
  every state the server reaches), the notifications for the id of a pending request are
  exactly one.
\<close>

theorem on_connection_closed_fails_pending:
  "pending_requests (fst (on_connection_closed s)) = []
   \<and> notified (snd (on_connection_closed s)) =
       map (notify (Failed (ServerError (JStr ''Klippy Disconnected'') 503)))
           (map snd (pending_requests s))
   \<and> (\<forall>r \<in> set (notified (snd (on_connection_closed s))).
         response r = Some (Failed (ServerError (JStr ''Klippy Disconnected'') 503))
         \<and> wait [r] = Some (Inl (ServerError (JStr ''Klippy Disconnected'') 503)))
   \<and> (registry_ok s \<longrightarrow>
        (\<forall>(k, q) \<in> set (pending_requests s).
           filter (\<lambda>r. req_id r = k) (notified (snd (on_connection_closed s)))
           = [notify (Failed (ServerError (JStr ''Klippy Disconnected'') 503)) q]))"
proof (intro conjI)
  show "pending_requests (fst (on_connection_closed s)) = []"
    by (simp add: on_connection_closed_def)
  show "notified (snd (on_connection_closed s)) =
          map (notify (Failed (ServerError (JStr ''Klippy Disconnected'') 503)))
              (map snd (pending_requests s))"
    by (rule on_connection_closed_notified)
  show "\<forall>r \<in> set (notified (snd (on_connection_closed s))).
          response r = Some (Failed (ServerError (JStr ''Klippy Disconnected'') 503))
          \<and> wait [r] = Some (Inl (ServerError (JStr ''Klippy Disconnected'') 503))"
    by (auto simp: on_connection_closed_notified response_notify event_is_set_notify)
  show "registry_ok s \<longrightarrow>
          (\<forall>(k, q) \<in> set (pending_requests s).
             filter (\<lambda>r. req_id r = k) (notified (snd (on_connection_closed s)))
             = [notify (Failed (ServerError (JStr ''Klippy Disconnected'') 503)) q])"
  proof (intro impI ballI)
    fix x
    assume ok: "registry_ok s" and x: "x \<in> set (pending_requests s)"
    obtain k q where kq: "x = (k, q)"
      by (cases x)
    from ok have keys: "distinct (map fst (pending_requests s))"
      and ids: "\<forall>(j, r) \<in> set (pending_requests s). req_id r = j"
      by (simp_all add: registry_ok_def)
    from x kq have "(k, q) \<in> set (pending_requests s)"
      by simp
    with keys ids
    have "filter (\<lambda>r. req_id r = k)
            (map (notify (Failed (ServerError (JStr ''Klippy Disconnected'') 503)))
                 (map snd (pending_requests s)))
          = [notify (Failed (ServerError (JStr ''Klippy Disconnected'') 503)) q]"
      by (rule filter_notified_registered)
    then show "case x of (k, q) \<Rightarrow>
                 filter (\<lambda>r. req_id r = k) (notified (snd (on_connection_closed s)))
                 = [notify (Failed (ServerError (JStr ''Klippy Disconnected'') 503)) q]"
      by (simp only: kq on_connection_closed_notified prod.case)
  qed
qed

theorem on_connection_closed_fails_pending_witness:
  "registry_ok ((Server_init [])\<lparr>pending_requests :=
       [(1, BaseRequest 1 ''info'' \<lparr>objects = None, response_template = None, others = []\<rparr>),
        (2, BaseRequest 2 ''gcode/script''
              \<lparr>objects = None, response_template = None, others = [(''script'', JStr ''G28'')]\<rparr>)]\<rparr>)
   \<and> map req_id (notified (snd (on_connection_closed ((Server_init [])\<lparr>pending_requests :=
       [(1, BaseRequest 1 ''info'' \<lparr>objects = None, response_template = None, others = []\<rparr>),
        (2, BaseRequest 2 ''gcode/script''
              \<lparr>objects = None, response_template = None, others = [(''script'', JStr ''G28'')]\<rparr>)]\<rparr>))))
       = [1, 2]
   \<and> filter (\<lambda>r. req_id r = 2) (notified (snd (on_connection_closed ((Server_init [])\<lparr>pending_requests :=
       [(1, BaseRequest 1 ''info'' \<lparr>objects = None, response_template = None, others = []\<rparr>),
        (2, BaseRequest 2 ''gcode/script''
              \<lparr>objects = None, response_template = None, others = [(''script'', JStr ''G28'')]\<rparr>)]\<rparr>))))
       = [notify (Failed (ServerError (JStr ''Klippy Disconnected'') 503))
            (BaseRequest 2 ''gcode/script''
              \<lparr>objects = None, response_template = None, others = [(''script'', JStr ''G28'')]\<rparr>)]
   \<and> wait [notify (Failed (ServerError (JStr ''Klippy Disconnected'') 503))
            (BaseRequest 2 ''gcode/script''
              \<lparr>objects = None, response_template = None, others = [(''script'', JStr ''G28'')]\<rparr>)]
       = Some (Inl (ServerError (JStr ''Klippy Disconnected'') 503))"
proof -
  let ?r1 = "BaseRequest 1 ''info'' \<lparr>objects = None, response_template = None, others = []\<rparr>"
  let ?r2 = "BaseRequest 2 ''gcode/script''
               \<lparr>objects = None, response_template = None, others = [(''script'', JStr ''G28'')]\<rparr>"
  let ?s = "(Server_init [])\<lparr>pending_requests := [(1, ?r1), (2, ?r2)]\<rparr>"
  let ?e = "Failed (ServerError (JStr ''Klippy Disconnected'') 503)"
  note inst = on_connection_closed_fails_pending [of ?s]
  have ok: "registry_ok ?s"
    by (simp add: registry_ok_def BaseRequest_def)
  have pend: "pending_requests ?s = [(1, ?r1), (2, ?r2)]"
    by simp
  from inst have ns: "notified (snd (on_connection_closed ?s)) = [notify ?e ?r1, notify ?e ?r2]"
    by (simp only: pend list.map snd_conv)
  from inst ok have "\<forall>(k, q) \<in> set (pending_requests ?s).
      filter (\<lambda>r. req_id r = k) (notified (snd (on_connection_closed ?s))) = [notify ?e q]"
    by blast
  then have once: "filter (\<lambda>r. req_id r = 2) (notified (snd (on_connection_closed ?s)))
                   = [notify ?e ?r2]"
    by (simp only: pend) simp
  from inst have "\<forall>r \<in> set (notified (snd (on_connection_closed ?s))).
      wait [r] = Some (Inl (ServerError (JStr ''Klippy Disconnected'') 503))"
    by blast
  then have w: "wait [notify ?e ?r2] = Some (Inl (ServerError (JStr ''Klippy Disconnected'') 503))"
    by (simp only: ns) simp
  have ids: "map req_id [notify ?e ?r1, notify ?e ?r2] = [1, 2]"
    by (simp add: req_id_notify BaseRequest_def)
  show ?thesis
    using ok once w ids by (simp only: ns simp_thms)
qed

subsection \<open>C5: the outgoing subscribe request\<close>

text \<open>
  C5. A call of \<^verbatim>\<open>make_request\<close> with the method \<^verbatim>\<open>objects/subscribe\<close> merges the
  requested objects into \<^verbatim>\<open>all_subscriptions\<close> and sends the whole accumulated
  table: the \<^verbatim>\<open>'objects'\<close> parameter of the outgoing request is the table after the
  merge, which names every object subscribed before as well as the new ones, and the
  \<^verbatim>\<open>'response_template'\<close> parameter is \<^verbatim>\<open>{'method': "process_status_update"}\<close>.
  The other parameters are untouched, and the request is registered and handed to
  \<^verbatim>\<open>send_request\<close>.
\<close>

theorem make_request_subscribe_sends_whole_table:
  assumes "make_request self ''objects/subscribe'' ps s = (s1, base_request, out)"
  shows "all_subscriptions s1 =
           merge_subscriptions (all_subscriptions s)
             (case objects ps of None \<Rightarrow> [] | Some os \<Rightarrow> os)
       \<and> objects (params base_request) = Some (all_subscriptions s1)
       \<and> fst ` set (all_subscriptions s1) =
           fst ` set (all_subscriptions s)
           \<union> fst ` set (case objects ps of None \<Rightarrow> [] | Some os \<Rightarrow> os)
       \<and> response_template (params base_request) =
           Some (JDict [(''method'', JStr ''process_status_update'')])
       \<and> others (params base_request) = others ps
       \<and> rpc_method base_request = ''objects/subscribe''
       \<and> map_of (pending_requests s1) self = Some base_request
       \<and> out = [SpawnSend base_request]"
proof -
  let ?m = "make_request self ''objects/subscribe'' ps s"
  have s1: "s1 = fst ?m" and r: "base_request = fst (snd ?m)" and out: "out = snd (snd ?m)"
    by (simp_all add: assms)
  show ?thesis
    unfolding s1 r out
    by (simp add: make_request_def Let_def BaseRequest_def update_conv'
          keys_merge_subscriptions)
qed

theorem make_request_subscribe_sends_whole_table_witness:
  "objects (params (fst (snd (make_request 1 ''objects/subscribe''
       \<lparr>objects = Some [(''B'', AllFields)], response_template = None, others = []\<rparr>
       ((Server_init [])\<lparr>all_subscriptions := [(''A'', Fields [''x''])]\<rparr>)))))
     = Some [(''A'', Fields [''x'']), (''B'', AllFields)]
   \<and> response_template (params (fst (snd (make_request 1 ''objects/subscribe''
       \<lparr>objects = Some [(''B'', AllFields)], response_template = None, others = []\<rparr>
       ((Server_init [])\<lparr>all_subscriptions := [(''A'', Fields [''x''])]\<rparr>)))))
     = Some (JDict [(''method'', JStr ''process_status_update'')])"
proof -
  let ?ps = "\<lparr>objects = Some [(''B'', AllFields)], response_template = None, others = []\<rparr>"
  let ?s = "(Server_init [])\<lparr>all_subscriptions := [(''A'', Fields [''x''])]\<rparr>"
  let ?m = "make_request 1 ''objects/subscribe'' ?ps ?s"
  have run: "?m = (fst ?m, fst (snd ?m), snd (snd ?m))"
    by simp
  have tab: "merge_subscriptions (all_subscriptions ?s)
               (case objects ?ps of None \<Rightarrow> [] | Some os \<Rightarrow> os)
             = [(''A'', Fields [''x'']), (''B'', AllFields)]"
    by (simp add: subscribe_object_def)
  from make_request_subscribe_sends_whole_table [OF run] tab show ?thesis
    by simp
qed

subsection \<open>C6: request ids\<close>

text \<open>
  C6, as stated, fails: the id is \<^verbatim>\<open>id(self)\<close>, the identity the runtime gives the
  object, not a counter. Two requests alive together can have the ids 9 and then 7; and
  after the request with id 7 has been answered and is gone, a later and different request
  can be created at the same identity and have the id 7 again.
\<close>

theorem request_ids_decrease_and_repeat:
  "map spawned
     (snd (run [MakeRequest 9 ''info'' \<lparr>objects = None, response_template = None, others = []\<rparr>,
                MakeRequest 7 ''objects/list''
                  \<lparr>objects = None, response_template = None, others = []\<rparr>] (Server_init [])))
     = [[BaseRequest 9 ''info'' \<lparr>objects = None, response_template = None, others = []\<rparr>],
        [BaseRequest 7 ''objects/list'' \<lparr>objects = None, response_template = None, others = []\<rparr>]]
   \<and> req_id (BaseRequest 7 ''objects/list'' \<lparr>objects = None, response_template = None, others = []\<rparr>)
       < req_id (BaseRequest 9 ''info'' \<lparr>objects = None, response_template = None, others = []\<rparr>)
   \<and> map spawned
     (snd (run [MakeRequest 7 ''info'' \<lparr>objects = None, response_template = None, others = []\<rparr>,
                Received [(''id'', JInt 7), (''result'', JStr ''x'')],
                MakeRequest 7 ''gcode/script''
                  \<lparr>objects = None, response_template = None, others = [(''script'', JStr ''G28'')]\<rparr>]
           (Server_init [])))
     = [[BaseRequest 7 ''info'' \<lparr>objects = None, response_template = None, others = []\<rparr>],
        [],
        [BaseRequest 7 ''gcode/script''
           \<lparr>objects = None, response_template = None, others = [(''script'', JStr ''G28'')]\<rparr>]]
   \<and> BaseRequest 7 ''info'' \<lparr>objects = None, response_template = None, others = []\<rparr>
       \<noteq> BaseRequest 7 ''gcode/script''
           \<lparr>objects = None, response_template = None, others = [(''script'', JStr ''G28'')]\<rparr>
   \<and> req_id (BaseRequest 7 ''info'' \<lparr>objects = None, response_template = None, others = []\<rparr>)
       = req_id (BaseRequest 7 ''gcode/script''
           \<lparr>objects = None, response_template = None, others = [(''script'', JStr ''G28'')]\<rparr>)"
  by (simp add: make_request_def process_command_def response_result_def py_get_def
        Server_init_def register_remote_method_def BaseRequest_def Let_def AList.delete_eq)

text \<open>
  C6, amended. The id of a request is the identity of its object. In every state the
  server reaches, the requests in the registry of pending requests have pairwise
  different ids, each registered under its own id; and a new request whose identity is
  that of no pending request (which the runtime ensures, pending requests being alive) is
  added to the registry without displacing any of them.
\<close>

theorem pending_requests_have_distinct_ids:
  "req_id (BaseRequest self rpc ps) = self
   \<and> distinct (map (\<lambda>(k, r). req_id r)
         (pending_requests (fst (run es (Server_init plugin_methods)))))
   \<and> (\<forall>(k, r) \<in> set (pending_requests (fst (run es (Server_init plugin_methods)))). req_id r = k)
   \<and> (self \<notin> fst ` set (pending_requests (fst (run es (Server_init plugin_methods)))) \<longrightarrow>
        pending_requests (fst (run (es @ [MakeRequest self rpc ps]) (Server_init plugin_methods)))
        = pending_requests (fst (run es (Server_init plugin_methods)))
          @ [(self, fst (snd (make_request self rpc ps
                                (fst (run es (Server_init plugin_methods))))))])"
proof -
  let ?s = "fst (run es (Server_init plugin_methods))"
  have ok: "registry_ok ?s"
    by (rule registry_ok_reachable)
  then have ids: "\<forall>(k, r) \<in> set (pending_requests ?s). req_id r = k"
    and keys: "distinct (map fst (pending_requests ?s))"
    by (simp_all add: registry_ok_def)
  from ids have eq: "map (\<lambda>(k, r). req_id r) (pending_requests ?s) = map fst (pending_requests ?s)"
    by (auto intro: map_cong)
  have d: "distinct (map (\<lambda>(k, r). req_id r) (pending_requests ?s))"
    unfolding eq by (rule keys)
  have "self \<notin> fst ` set (pending_requests ?s) \<longrightarrow>
        pending_requests (fst (run (es @ [MakeRequest self rpc ps]) (Server_init plugin_methods)))
        = pending_requests ?s @ [(self, fst (snd (make_request self rpc ps ?s)))]"
    by (simp only: fst_run_snoc fst_step_MakeRequest make_request_pending make_request_req_id)
       (simp add: update_fresh)
  with d ids show ?thesis
    by (simp add: BaseRequest_def)
qed

theorem pending_requests_have_distinct_ids_witness:
  "(7, BaseRequest 7 ''objects/list'' \<lparr>objects = None, response_template = None, others = []\<rparr>)
     \<in> set (pending_requests (fst (run
          [MakeRequest 9 ''info'' \<lparr>objects = None, response_template = None, others = []\<rparr>,
           MakeRequest 7 ''objects/list''
             \<lparr>objects = None, response_template = None, others = []\<rparr>] (Server_init []))))
   \<and> req_id (BaseRequest 7 ''objects/list''
         \<lparr>objects = None, response_template = None, others = []\<rparr>) = 7
   \<and> 5 \<notin> fst ` set (pending_requests (fst (run
          [MakeRequest 9 ''info'' \<lparr>objects = None, response_template = None, others = []\<rparr>,
           MakeRequest 7 ''objects/list''
             \<lparr>objects = None, response_template = None, others = []\<rparr>] (Server_init []))))
   \<and> map fst (pending_requests (fst (run
          ([MakeRequest 9 ''info'' \<lparr>objects = None, response_template = None, others = []\<rparr>,
            MakeRequest 7 ''objects/list''
              \<lparr>objects = None, response_template = None, others = []\<rparr>]
           @ [MakeRequest 5 ''info'' \<lparr>objects = None, response_template = None, others = []\<rparr>])
          (Server_init []))))
       = [9, 7, 5]"
proof -
  let ?p = "\<lparr>objects = None, response_template = None, others = []\<rparr>"
  let ?es = "[MakeRequest 9 ''info'' ?p, MakeRequest 7 ''objects/list'' ?p]"
  let ?r7 = "BaseRequest 7 ''objects/list'' ?p"
  note inst = pending_requests_have_distinct_ids [of 5 "''info''" ?p ?es]
  have pend: "pending_requests (fst (run ?es (Server_init [])))
              = [(9, BaseRequest 9 ''info'' ?p), (7, ?r7)]"
    by (simp add: make_request_def Server_init_def register_remote_method_def BaseRequest_def Let_def)
  have mem: "(7, ?r7) \<in> set (pending_requests (fst (run ?es (Server_init []))))"
    by (simp only: pend) simp
  from inst have "\<forall>(k, r) \<in> set (pending_requests (fst (run ?es (Server_init [])))). req_id r = k"
    by blast
  with mem have id: "req_id ?r7 = 7"
    by blast
  have fresh: "5 \<notin> fst ` set (pending_requests (fst (run ?es (Server_init []))))"
    by (simp only: pend) simp
  with inst have "pending_requests (fst (run (?es @ [MakeRequest 5 ''info'' ?p]) (Server_init [])))
        = pending_requests (fst (run ?es (Server_init [])))
          @ [(5, fst (snd (make_request 5 ''info'' ?p (fst (run ?es (Server_init []))))))]"
    by blast
  then have keys: "map fst (pending_requests (fst (run (?es @ [MakeRequest 5 ''info'' ?p]) (Server_init []))))
                   = [9, 7, 5]"
    by (simp only: pend) simp
  from mem id fresh keys show ?thesis
    by (simp only: simp_thms)
qed

subsection \<open>C7: a response with a result\<close>

text \<open>
  C7. A message that \<^verbatim>\<open>process_command\<close> takes as a response (it has no method),
  whose id is that of a request in the registry and which has a \<^verbatim>\<open>'result'\<close>
  field: the request is taken out of the registry and notified once, with the literal
  \<^verbatim>\<open>"ok"\<close> when the result is falsy (\<^verbatim>\<open>None\<close>, \<^verbatim>\<open>False\<close>, zero, an empty
  string, list or object) and with the result itself, unchanged, when it is truthy; and
  the caller waiting on the request gets that value returned.
\<close>

theorem response_with_result_resolves_request:
  assumes "py_get cmd ''method'' JNull = JNull"
    and "int_key (py_get cmd ''id'' JNull) = Some k"
    and "map_of (pending_requests s) k = Some request"
    and "map_of cmd ''result'' = Some res"
  shows "process_command cmd s =
           (s\<lparr>pending_requests := AList.delete k (pending_requests s)\<rparr>,
            [Notified (notify (Payload (if truthy res then res else JStr ''ok'')) request)])
       \<and> wait [notify (Payload (if truthy res then res else JStr ''ok'')) request]
           = Some (Inr (if truthy res then res else JStr ''ok''))"
proof -
  from assms(4) have "response_result cmd = Payload (if truthy res then res else JStr ''ok'')"
    by (simp add: response_result_def)
  with process_command_response [OF assms(1-3)] show ?thesis
    by (simp add: response_notify event_is_set_notify)
qed

theorem response_with_result_resolves_request_witness:
  "py_get [(''id'', JInt 7), (''result'', JDict [])] ''method'' JNull = JNull
   \<and> int_key (py_get [(''id'', JInt 7), (''result'', JDict [])] ''id'' JNull) = Some 7
   \<and> map_of (pending_requests ((Server_init [])\<lparr>pending_requests :=
         [(7, BaseRequest 7 ''info'' \<lparr>objects = None, response_template = None, others = []\<rparr>)]\<rparr>)) 7
       = Some (BaseRequest 7 ''info'' \<lparr>objects = None, response_template = None, others = []\<rparr>)
   \<and> map_of [(''id'', JInt 7), (''result'', JDict [])] ''result'' = Some (JDict [])
   \<and> snd (process_command [(''id'', JInt 7), (''result'', JDict [])]
         ((Server_init [])\<lparr>pending_requests :=
           [(7, BaseRequest 7 ''info'' \<lparr>objects = None, response_template = None, others = []\<rparr>)]\<rparr>))
       = [Notified (notify (Payload (JStr ''ok''))
            (BaseRequest 7 ''info'' \<lparr>objects = None, response_template = None, others = []\<rparr>))]
   \<and> wait [notify (Payload (JStr ''ok''))
            (BaseRequest 7 ''info'' \<lparr>objects = None, response_template = None, others = []\<rparr>)]
       = Some (Inr (JStr ''ok''))"
proof -
  let ?cmd = "[(''id'', JInt 7), (''result'', JDict [])]"
  let ?r = "BaseRequest 7 ''info'' \<lparr>objects = None, response_template = None, others = []\<rparr>"
  let ?s = "(Server_init [])\<lparr>pending_requests := [(7, ?r)]\<rparr>"
  have h1: "py_get ?cmd ''method'' JNull = JNull"
    and h2: "int_key (py_get ?cmd ''id'' JNull) = Some 7"
    and h3: "map_of (pending_requests ?s) 7 = Some ?r"
    and h4: "map_of ?cmd ''result'' = Some (JDict [])"
    by (simp_all add: py_get_def)
  from response_with_result_resolves_request [OF h1 h2 h3 h4] h1 h2 h3 h4 show ?thesis
    by simp
qed

subsection \<open>C8: a response with an error\<close>

text \<open>
  C8, as stated, fails when the response has a \<^verbatim>\<open>'result'\<close> field as well:
  \<^verbatim>\<open>process_command\<close> tests \<^verbatim>\<open>'result' in cmd\<close> first and reads
  \<^verbatim>\<open>'error'\<close> only in the other branch. The response
  \<^verbatim>\<open>{"id": 7, "result": "done", "error": "boom"}\<close> to the pending request 7
  resolves it with the payload \<^verbatim>\<open>"done"\<close>, which its caller gets returned; no
  error is raised.
\<close>

theorem error_field_with_result_resolves_as_success:
  "process_command [(''id'', JInt 7), (''result'', JStr ''done''), (''error'', JStr ''boom'')]
     ((Server_init [])\<lparr>pending_requests :=
        [(7, BaseRequest 7 ''gcode/script''
               \<lparr>objects = None, response_template = None, others = []\<rparr>)]\<rparr>)
   = ((Server_init [])\<lparr>pending_requests := []\<rparr>,
      [Notified (notify (Payload (JStr ''done''))
         (BaseRequest 7 ''gcode/script''
            \<lparr>objects = None, response_template = None, others = []\<rparr>))])
   \<and> wait [notify (Payload (JStr ''done''))
         (BaseRequest 7 ''gcode/script''
            \<lparr>objects = None, response_template = None, others = []\<rparr>)]
       = Some (Inr (JStr ''done''))"
  by (simp add: process_command_def py_get_def Let_def response_result_def notify_def
        BaseRequest_def Server_init_def register_remote_method_def AList.delete_eq)

text \<open>
  C8, amended. A response (no method) whose id is that of a request in the registry,
  which has an \<^verbatim>\<open>'error'\<close> field and no \<^verbatim>\<open>'result'\<close> field: the request is
  taken out of the registry and notified once with \<^verbatim>\<open>ServerError(err, 400)\<close>,
  \<open>err\<close> being the value of the field as the backend sent it, and the caller waiting on
  the request gets this error raised.
\<close>

theorem response_with_error_only_raises:
  assumes "py_get cmd ''method'' JNull = JNull"
    and "int_key (py_get cmd ''id'' JNull) = Some k"
    and "map_of (pending_requests s) k = Some request"
    and "map_of cmd ''result'' = None"
    and "map_of cmd ''error'' = Some err"
  shows "process_command cmd s =
           (s\<lparr>pending_requests := AList.delete k (pending_requests s)\<rparr>,
            [Notified (notify (Failed (ServerError err 400)) request)])
       \<and> wait [notify (Failed (ServerError err 400)) request] = Some (Inl (ServerError err 400))"
proof -
  from assms(4,5) have "response_result cmd = Failed (ServerError err 400)"
    by (simp add: response_result_def py_get_def)
  with process_command_response [OF assms(1-3)] show ?thesis
    by (simp add: response_notify event_is_set_notify)
qed

theorem response_with_error_only_raises_witness:
  "py_get [(''id'', JInt 7), (''error'', JStr ''boom'')] ''method'' JNull = JNull
   \<and> int_key (py_get [(''id'', JInt 7), (''error'', JStr ''boom'')] ''id'' JNull) = Some 7
   \<and> map_of (pending_requests ((Server_init [])\<lparr>pending_requests :=
         [(7, BaseRequest 7 ''gcode/script''
                \<lparr>objects = None, response_template = None, others = []\<rparr>)]\<rparr>)) 7
       = Some (BaseRequest 7 ''gcode/script''
                \<lparr>objects = None, response_template = None, others = []\<rparr>)
   \<and> map_of [(''id'', JInt 7), (''error'', JStr ''boom'')] ''result'' = None
   \<and> map_of [(''id'', JInt 7), (''error'', JStr ''boom'')] ''error'' = Some (JStr ''boom'')
   \<and> snd (process_command [(''id'', JInt 7), (''error'', JStr ''boom'')]
         ((Server_init [])\<lparr>pending_requests :=
           [(7, BaseRequest 7 ''gcode/script''
                  \<lparr>objects = None, response_template = None, others = []\<rparr>)]\<rparr>))
       = [Notified (notify (Failed (ServerError (JStr ''boom'') 400))
            (BaseRequest 7 ''gcode/script''
               \<lparr>objects = None, response_template = None, others = []\<rparr>))]
   \<and> wait [notify (Failed (ServerError (JStr ''boom'') 400))
            (BaseRequest 7 ''gcode/script''
               \<lparr>objects = None, response_template = None, others = []\<rparr>)]
       = Some (Inl (ServerError (JStr ''boom'') 400))"
proof -
  let ?cmd = "[(''id'', JInt 7), (''error'', JStr ''boom'')]"
  let ?r = "BaseRequest 7 ''gcode/script''
              \<lparr>objects = None, response_template = None, others = []\<rparr>"
  let ?s = "(Server_init [])\<lparr>pending_requests := [(7, ?r)]\<rparr>"
  have h1: "py_get ?cmd ''method'' JNull = JNull"
    and h2: "int_key (py_get ?cmd ''id'' JNull) = Some 7"
    and h3: "map_of (pending_requests ?s) 7 = Some ?r"
    and h4: "map_of ?cmd ''result'' = None"
    and h5: "map_of ?cmd ''error'' = Some (JStr ''boom'')"
    by (simp_all add: py_get_def)
  from response_with_error_only_raises [OF h1 h2 h3 h4 h5] h1 h2 h3 h4 h5 show ?thesis
    by simp
qed

subsection \<open>C9: an empty field list\<close>

text \<open>
  C9, as stated, fails: an empty field list is not recorded as "all fields". A first
  subscription to \<^verbatim>\<open>toolhead\<close> with the empty list \<^verbatim>\<open>[]\<close> leaves the entry
  \<^verbatim>\<open>[]\<close>, where \<^verbatim>\<open>None\<close> leaves \<^verbatim>\<open>None\<close>; and a later subscription with the
  field \<^verbatim>\<open>position\<close> turns the first into \<^verbatim>\<open>['position']\<close>, while the second
  stays \<^verbatim>\<open>None\<close>.
\<close>

theorem empty_field_list_is_not_all_fields:
  "all_subscriptions (fst (make_request 1 ''objects/subscribe''
       \<lparr>objects = Some [(''toolhead'', Fields [])], response_template = None, others = []\<rparr>
       (Server_init []))) = [(''toolhead'', Fields [])]
   \<and> all_subscriptions (fst (make_request 1 ''objects/subscribe''
       \<lparr>objects = Some [(''toolhead'', AllFields)], response_template = None, others = []\<rparr>
       (Server_init []))) = [(''toolhead'', AllFields)]
   \<and> table [(''toolhead'', Fields [])] ''toolhead'' = Some (Only {})
   \<and> table [(''toolhead'', Fields [])] ''toolhead'' \<noteq> Some All
   \<and> merge_subscriptions [(''toolhead'', Fields [])] [(''toolhead'', Fields [''position''])]
       = [(''toolhead'', Fields [''position''])]
   \<and> merge_subscriptions [(''toolhead'', AllFields)] [(''toolhead'', Fields [''position''])]
       = [(''toolhead'', AllFields)]"
  by (simp add: make_request_def Let_def Server_init_def register_remote_method_def subscribe_object_def table_def
        uitems_def)

text \<open>
  C9, amended. Only \<^verbatim>\<open>None\<close> is the all-fields sentinel: subscribing an object with
  \<^verbatim>\<open>None\<close> makes its entry "all fields" whatever it was. An empty field list is an
  empty field set: it creates the entry with no field when the object is new, and leaves
  the entry of an object already in the table as it is.
\<close>

theorem empty_field_list_is_empty_set:
  "table (merge_subscriptions subs [(obj, AllFields)]) = (table subs)(obj \<mapsto> All)
   \<and> table (merge_subscriptions subs [(obj, Fields [])]) =
       (table subs)(obj \<mapsto> (case table subs obj of None \<Rightarrow> Only {} | Some a \<Rightarrow> a))"
  by (simp add: table_subscribe_object spec_union_empty spec_union_All split: option.splits)

subsection \<open>C10: a message with a method\<close>



end
